theory Spec2Isabelle
  imports Complex_Main
begin

section \<open>Key derivation: \<^verbatim>\<open>_processSource\<close> (image.js, lines 125-156)\<close>

text \<open>
  \<^verbatim>\<open>new URL(source.uri, null, true)\<close> is the external package url-parse. With a true
  third argument it parses the query string into a plain object, so \<^verbatim>\<open>url.query\<close> is an
  object whose own properties are the query parameters (lines 137-138 read it that way).
  The parsed locator is the input of the model: host, path component, and the query object
  as a map from parameter names to values. Strings are lists of 8-bit code units.
\<close>

record url =
  host :: string
  pathname :: string
  query :: "string \<rightharpoonup> string"

text \<open>
  The prop \<^verbatim>\<open>useQueryParamsInCacheKey\<close> is a boolean or an array of names (propTypes,
  lines 240-243; the default is \<^verbatim>\<open>false\<close>, line 252).
\<close>

datatype useQueryParamsInCacheKey = Flag bool | Names "string list"

text \<open>
  \<^verbatim>\<open>String.prototype.concat\<close> converts its argument to a string. The query object is a
  plain object, and \<^verbatim>\<open>Object.prototype.toString\<close> renders every plain object as the same
  fifteen characters, whatever its properties.
\<close>

definition object_toString :: "(string \<rightharpoonup> string) \<Rightarrow> string" where
  "object_toString q = ''[object Object]''"

text \<open>
  Lines 134-144, the local variable \<^verbatim>\<open>cacheable\<close>: the path, then for an array the values
  of the listed names that are own properties of the query object, in the order of the
  array (\<^verbatim>\<open>forEach\<close>); for any other truthy value the query object itself, concatenated.
\<close>

fun processSource_cacheable :: "useQueryParamsInCacheKey \<Rightarrow> url \<Rightarrow> string" where
  "processSource_cacheable (Names ks) u =
     fold (\<lambda>k acc. case query u k of Some v \<Rightarrow> acc @ v | None \<Rightarrow> acc) ks (pathname u)"
| "processSource_cacheable (Flag b) u =
     (if b then pathname u @ object_toString (query u) else pathname u)"

text \<open>
  Line 147, \<^verbatim>\<open>url.pathname.replace(/.*\.(.*)/, '$1')\<close>. The pattern has no flag, so it
  replaces the leftmost match only, and \<^verbatim>\<open>.\<close> matches every character but a line
  terminator. A match therefore lies within one line: it starts where the first line that
  holds a dot starts (\<^verbatim>\<open>.*\<close> is greedy and backtracks to the last dot of that line), runs
  to the end of that line, and is replaced by the captured text after that dot. Without
  any such line the string is returned as it is. Of JavaScript's four line terminators,
  line feed and carriage return are 8-bit code units; U+2028 and U+2029 are not, and lie
  outside this model of strings.
\<close>

definition lineTerminator :: "char \<Rightarrow> bool" where
  "lineTerminator c \<longleftrightarrow> c = CHR 0x0A \<or> c = CHR 0x0D"

definition afterLastDot :: "string \<Rightarrow> string" where
  "afterLastDot l = rev (takeWhile (\<lambda>c. c \<noteq> CHR ''.'') (rev l))"

function replace_dot_capture :: "string \<Rightarrow> string" where
  "replace_dot_capture s =
     (let l = takeWhile (\<lambda>c. \<not> lineTerminator c) s;
          r = dropWhile (\<lambda>c. \<not> lineTerminator c) s
      in if CHR ''.'' \<in> set l then afterLastDot l @ r
         else (case r of [] \<Rightarrow> l | t # r' \<Rightarrow> l @ t # replace_dot_capture r'))"
  by pat_completeness auto
termination
proof (relation "measure length")
  show "wf (measure length)" by simp
next
  fix s l r :: string and t r'
  assume "r = dropWhile (\<lambda>c. \<not> lineTerminator c) s" and "r = t # r'"
  then have "length (t # r') \<le> length s"
    using length_dropWhile_le [of "\<lambda>c. \<not> lineTerminator c" s] by simp
  then show "(r', s) \<in> measure length" by simp
qed

declare replace_dot_capture.simps [simp del]

text \<open>
  Lines 147-148: \<^verbatim>\<open>type\<close>, and the key
  \<^verbatim>\<open>SHA1(cacheable) + '.' + (type.length < url.pathname.length ? type : '')\<close>.
  \<^verbatim>\<open>SHA1\<close> is the external package crypto-js; concatenation renders its digest as
  hexadecimal text. It is a parameter of the model.
\<close>

definition processSource_type :: "url \<Rightarrow> string" where
  "processSource_type u = replace_dot_capture (pathname u)"

definition processSource_extension :: "url \<Rightarrow> string" where
  "processSource_extension u =
     (if length (processSource_type u) < length (pathname u) then processSource_type u else '''')"

definition processSource_cacheKey ::
  "(string \<Rightarrow> string) \<Rightarrow> useQueryParamsInCacheKey \<Rightarrow> url \<Rightarrow> string" where
  "processSource_cacheKey sha1 pol u =
     sha1 (processSource_cacheable pol u) @ ''.'' @ processSource_extension u"

text \<open>
  Line 126-129: a source is remote when it is a non-null object with an own property
  \<^verbatim>\<open>uri\<close>. A number (a bundled asset), a string, \<^verbatim>\<open>null\<close> and \<^verbatim>\<open>undefined\<close> are not
  objects; an object compared with \<^verbatim>\<open>''\<close> by \<^verbatim>\<open>!=\<close> is converted to
  \<^verbatim>\<open>[object Object]\<close> first and differs.
\<close>

datatype source = SrcNull | SrcUndefined | SrcNumber int | SrcString string
  | SrcObject "string option"

fun remote_uri :: "source \<Rightarrow> string option" where
  "remote_uri (SrcObject (Some uri)) = Some uri"
| "remote_uri _ = None"

section \<open>The component state and the native modules\<close>

text \<open>The fields of \<^verbatim>\<open>this.state\<close>, and their values in the constructor (lines 18-25).\<close>

record cstate =
  isRemote :: bool
  cachedImagePath :: "string option"
  downloading :: bool
  cacheable :: bool
  jobId :: "nat option"
  networkAvailable :: bool

definition constructor_state :: cstate where
  "constructor_state =
     \<lparr>isRemote = False, cachedImagePath = None, downloading = False, cacheable = True,
      jobId = None, networkAvailable = False\<rparr>"

text \<open>
  What the component does to the outside, in the order it does it: the calls into
  react-native-fs and NetInfo, and every \<^verbatim>\<open>setState\<close> with the state it leaves (outside
  a React event handler \<^verbatim>\<open>setState\<close> takes effect at once, so this is the moment the
  presentation layer sees the state).
\<close>

datatype kind = RegularFile | Directory

datatype event =
    Stat string
  | Mkdir string
  | DownloadFile string string
  | Exists string
  | Unlink string
  | StopDownload nat
  | AddListener
  | RemoveListener
  | NetFetch
  | SetState cstate

text \<open>
  The component, the file system the native calls act on, and the events so far.
\<close>

record sys =
  comp :: cstate
  files :: "string \<rightharpoonup> kind"
  trace :: "event list"

text \<open>
  How the native side answers during one resolution. The component decides none of this:
  whether \<^verbatim>\<open>mkdir\<close> resolves; whether the transfer fires \<^verbatim>\<open>begin\<close> (with which job
  id), the progress observations it reports (content length, bytes written), whether it
  succeeds, and whether a failed transfer leaves a partial file; whether \<^verbatim>\<open>unlink\<close>
  resolves; what \<^verbatim>\<open>NetInfo.isConnected.fetch()\<close> resolves to, and whether it resolves
  before or after the \<^verbatim>\<open>stat\<close> of the same mount.
\<close>

record world =
  mkdir_ok :: bool
  dl_begin :: "nat option"
  dl_progress :: "(int \<times> int) list"
  dl_ok :: bool
  dl_partial :: bool
  unlink_ok :: bool
  connected :: bool
  fetch_first :: bool

text \<open>
  The packages that are not part of this repository: crypto-js (\<^verbatim>\<open>SHA1\<close>), url-parse
  (\<^verbatim>\<open>URL\<close>) and the constant \<^verbatim>\<open>DocumentDirectoryPath\<close> of react-native-fs.
\<close>

record deps =
  SHA1 :: "string \<Rightarrow> string"
  parseURL :: "string \<Rightarrow> url"
  DocumentDirectoryPath :: string

datatype error = TypeError string

definition setState :: "(cstate \<Rightarrow> cstate) \<Rightarrow> sys \<Rightarrow> sys" where
  "setState f s = s\<lparr>comp := f (comp s), trace := trace s @ [SetState (f (comp s))]\<rparr>"

definition native :: "event \<Rightarrow> sys \<Rightarrow> sys" where
  "native e s = s\<lparr>trace := trace s @ [e]\<rparr>"

text \<open>JavaScript truthiness of a path that is \<^verbatim>\<open>null\<close> or a string, and of a job id.\<close>

definition truthy_path :: "string option \<Rightarrow> bool" where
  "truthy_path p = (case p of None \<Rightarrow> False | Some x \<Rightarrow> x \<noteq> [])"

definition truthy_job :: "nat option \<Rightarrow> bool" where
  "truthy_job j = (case j of None \<Rightarrow> False | Some n \<Rightarrow> n \<noteq> 0)"

section \<open>The download callbacks (lines 41-49)\<close>

definition imageDownloadBegin :: "nat \<Rightarrow> sys \<Rightarrow> sys" where
  "imageDownloadBegin j s = setState (\<lambda>c. c\<lparr>downloading := True, jobId := Some j\<rparr>) s"

text \<open>
  JavaScript division of two byte counts: a zero divisor gives \<^verbatim>\<open>NaN\<close> (0/0) or an
  infinity, neither of which equals 1; \<open>None\<close> stands for them. For byte counts below
  2^53 the quotient of two different counts never rounds to 1, so the exact quotient
  decides the comparison.
\<close>

definition js_divide :: "int \<Rightarrow> int \<Rightarrow> rat option" where
  "js_divide a b = (if b = 0 then None else Some (of_int a / of_int b))"

definition imageDownloadProgress :: "int \<Rightarrow> int \<Rightarrow> sys \<Rightarrow> sys" where
  "imageDownloadProgress contentLength bytesWritten s =
     (if js_divide contentLength bytesWritten = Some 1
      then setState (\<lambda>c. c\<lparr>downloading := False, jobId := None\<rparr>) s
      else s)"

section \<open>\<^verbatim>\<open>_deleteFilePath\<close> (lines 113-123)\<close>

text \<open>
  The method calls \<^verbatim>\<open>RNFS.exists\<close> and returns; the callback of line 116 runs later,
  after the caller's remaining statements. It unlinks the file if it exists; line 120
  swallows a rejection of \<^verbatim>\<open>unlink\<close>, which leaves the file where it is.
\<close>

definition deleteFilePath_call :: "string \<Rightarrow> sys \<Rightarrow> sys" where
  "deleteFilePath_call p s = native (Exists p) s"

definition deleteFilePath_then :: "world \<Rightarrow> string \<Rightarrow> sys \<Rightarrow> sys" where
  "deleteFilePath_then w p s =
     (if p \<in> dom (files s)
      then (let s1 = native (Unlink p) s
            in if unlink_ok w then s1\<lparr>files := (files s1)(p := None)\<rparr> else s1)
      else s)"

section \<open>\<^verbatim>\<open>checkImageCache\<close> (lines 51-111)\<close>

text \<open>
  Each callback of the promise chain is a function of the state it finds when it runs.
  Lines 57-62: \<^verbatim>\<open>stat\<close> resolved; the state changes only if the path is a regular file.
\<close>

definition stat_then :: "string \<Rightarrow> bool \<Rightarrow> sys \<Rightarrow> sys" where
  "stat_then filePath isFile s =
     (if isFile then setState (\<lambda>c. c\<lparr>cacheable := True, cachedImagePath := Some filePath\<rparr>) s
      else s)"

text \<open>Lines 97-99: the transfer resolved.\<close>

definition download_then :: "string \<Rightarrow> sys \<Rightarrow> sys" where
  "download_then filePath s =
     setState (\<lambda>c. c\<lparr>cacheable := True, cachedImagePath := Some filePath\<rparr>) s"

text \<open>
  Lines 100-104 and lines 106-109 have the same body: \<^verbatim>\<open>_deleteFilePath(filePath)\<close>
  issues its existence check, \<^verbatim>\<open>setState\<close> follows at once, and the deferred callback of
  \<^verbatim>\<open>_deleteFilePath\<close> runs after that.
\<close>

definition download_catch :: "world \<Rightarrow> string \<Rightarrow> sys \<Rightarrow> sys" where
  "download_catch w filePath s =
     deleteFilePath_then w filePath
       (setState (\<lambda>c. c\<lparr>cacheable := False, cachedImagePath := None\<rparr>)
         (deleteFilePath_call filePath s))"

definition mkdir_catch :: "world \<Rightarrow> string \<Rightarrow> sys \<Rightarrow> sys" where
  "mkdir_catch w filePath s =
     deleteFilePath_then w filePath
       (setState (\<lambda>c. c\<lparr>cacheable := False, cachedImagePath := None\<rparr>)
         (deleteFilePath_call filePath s))"

text \<open>
  Lines 78-96: \<^verbatim>\<open>mkdir\<close> resolved. When the state holds a cacheable entry with a truthy
  path, line 82 calls \<^verbatim>\<open>this.deleteFilePath\<close>. The class defines \<^verbatim>\<open>_deleteFilePath\<close>
  (line 113) and nothing named \<^verbatim>\<open>deleteFilePath\<close>, nor does \<^verbatim>\<open>React.Component\<close>: the
  property is \<^verbatim>\<open>undefined\<close> and calling it throws a \<^verbatim>\<open>TypeError\<close> before anything else
  happens. Otherwise the callback starts the transfer.
\<close>

definition mkdir_then :: "string \<Rightarrow> string \<Rightarrow> sys \<Rightarrow> error + sys" where
  "mkdir_then imageUri filePath s =
     (if cacheable (comp s) \<and> truthy_path (cachedImagePath (comp s))
      then Inl (TypeError ''this.deleteFilePath is not a function'')
      else Inr (native (DownloadFile imageUri filePath) s))"

text \<open>
  The transfer, once started: \<^verbatim>\<open>begin\<close> if it fires, the progress observations in
  order, then the terminal callback. A successful transfer has written the file; a failed
  one may have left a partial file.
\<close>

definition download_settle :: "world \<Rightarrow> string \<Rightarrow> sys \<Rightarrow> sys" where
  "download_settle w filePath s =
     (let s1 = (case dl_begin w of Some j \<Rightarrow> imageDownloadBegin j s | None \<Rightarrow> s);
          s2 = fold (\<lambda>(contentLength, bytesWritten). imageDownloadProgress contentLength bytesWritten)
                 (dl_progress w) s1
      in if dl_ok w
         then download_then filePath (s2\<lparr>files := (files s2)(filePath \<mapsto> RegularFile)\<rparr>)
         else download_catch w filePath
                (s2\<lparr>files := (if dl_partial w then (files s2)(filePath \<mapsto> RegularFile)
                                else files s2)\<rparr>))"

text \<open>
  \<^verbatim>\<open>mkdir(...).then(...).catch(...)\<close>, lines 76-109: the \<^verbatim>\<open>catch\<close> of line 106 runs when
  \<^verbatim>\<open>mkdir\<close> rejects and when the callback of line 78 throws. The promise of the transfer
  has its own \<^verbatim>\<open>catch\<close> (line 100) and is not returned from the callback.
\<close>

definition mkdir_settle :: "world \<Rightarrow> string \<Rightarrow> string \<Rightarrow> string \<Rightarrow> sys \<Rightarrow> sys" where
  "mkdir_settle w imageUri dirPath filePath s =
     (if mkdir_ok w
      then (let s1 = s\<lparr>files := (files s)(dirPath \<mapsto> Directory)\<rparr>
            in case mkdir_then imageUri filePath s1 of
                 Inl e \<Rightarrow> mkdir_catch w filePath s1
               | Inr s2 \<Rightarrow> download_settle w filePath s2)
      else mkdir_catch w filePath s)"

text \<open>Lines 63-110: \<^verbatim>\<open>stat\<close> rejected, the path does not exist.\<close>

definition stat_catch :: "world \<Rightarrow> string \<Rightarrow> string \<Rightarrow> string \<Rightarrow> sys \<Rightarrow> sys" where
  "stat_catch w imageUri dirPath filePath s =
     (if \<not> networkAvailable (comp s)
      then setState (\<lambda>c. c\<lparr>cacheable := False, cachedImagePath := None\<rparr>) s
      else mkdir_settle w imageUri dirPath filePath (native (Mkdir dirPath) s))"

text \<open>
  The method itself (lines 52-56) computes the two paths and calls \<^verbatim>\<open>RNFS.stat\<close>; the
  rest happens when \<^verbatim>\<open>stat\<close> settles: it resolves for a path that exists (a file or a
  directory) and rejects for one that does not.
\<close>

definition checkImageCache_call :: "string \<Rightarrow> string \<Rightarrow> string \<Rightarrow> string \<Rightarrow> sys \<Rightarrow> sys" where
  "checkImageCache_call docDir imageUri cachePath cacheKey s =
     (let dirPath = docDir @ ''/'' @ cachePath;
          filePath = dirPath @ ''/'' @ cacheKey
      in native (Stat filePath) s)"

definition checkImageCache_settle ::
  "world \<Rightarrow> string \<Rightarrow> string \<Rightarrow> string \<Rightarrow> string \<Rightarrow> sys \<Rightarrow> sys" where
  "checkImageCache_settle w docDir imageUri cachePath cacheKey s =
     (let dirPath = docDir @ ''/'' @ cachePath;
          filePath = dirPath @ ''/'' @ cacheKey
      in case files s filePath of
           Some k \<Rightarrow> stat_then filePath (k = RegularFile) s
         | None \<Rightarrow> stat_catch w imageUri dirPath filePath s)"

definition checkImageCache ::
  "world \<Rightarrow> string \<Rightarrow> string \<Rightarrow> string \<Rightarrow> string \<Rightarrow> sys \<Rightarrow> sys" where
  "checkImageCache w docDir imageUri cachePath cacheKey s =
     checkImageCache_settle w docDir imageUri cachePath cacheKey
       (checkImageCache_call docDir imageUri cachePath cacheKey s)"

section \<open>\<^verbatim>\<open>_processSource\<close>, mounting and connectivity (lines 125-180)\<close>

text \<open>
  Lines 150-151: the arguments \<^verbatim>\<open>_processSource\<close> passes to \<^verbatim>\<open>checkImageCache\<close> are the
  locator, the host as the storage directory, and the key.
\<close>

definition processSource_cachePath :: "url \<Rightarrow> string" where
  "processSource_cachePath u = host u"

definition processSource_call :: "deps \<Rightarrow> useQueryParamsInCacheKey \<Rightarrow> source \<Rightarrow> sys \<Rightarrow> sys" where
  "processSource_call d pol src s =
     (case remote_uri src of
        Some uri \<Rightarrow>
          (let u = parseURL d uri
           in setState (\<lambda>c. c\<lparr>isRemote := True\<rparr>)
                (checkImageCache_call (DocumentDirectoryPath d) uri (processSource_cachePath u)
                   (processSource_cacheKey (SHA1 d) pol u) s))
      | None \<Rightarrow> setState (\<lambda>c. c\<lparr>isRemote := False\<rparr>) s)"

definition processSource_settle ::
  "world \<Rightarrow> deps \<Rightarrow> useQueryParamsInCacheKey \<Rightarrow> source \<Rightarrow> sys \<Rightarrow> sys" where
  "processSource_settle w d pol src s =
     (case remote_uri src of
        Some uri \<Rightarrow>
          (let u = parseURL d uri
           in checkImageCache_settle w (DocumentDirectoryPath d) uri (processSource_cachePath u)
                (processSource_cacheKey (SHA1 d) pol u) s)
      | None \<Rightarrow> s)"

definition processSource :: "world \<Rightarrow> deps \<Rightarrow> useQueryParamsInCacheKey \<Rightarrow> source \<Rightarrow> sys \<Rightarrow> sys" where
  "processSource w d pol src s = processSource_settle w d pol src (processSource_call d pol src s)"

text \<open>Lines 176-180, and the callback of the initial fetch (lines 161-163).\<close>

definition handleConnectivityChange :: "bool \<Rightarrow> sys \<Rightarrow> sys" where
  "handleConnectivityChange isConnected s =
     setState (\<lambda>c. c\<lparr>networkAvailable := isConnected\<rparr>) s"

definition netFetch_then :: "bool \<Rightarrow> sys \<Rightarrow> sys" where
  "netFetch_then isConnected s = setState (\<lambda>c. c\<lparr>networkAvailable := isConnected\<rparr>) s"

text \<open>
  Lines 158-166. The listener is registered, the fetch is started and the source is
  processed, all in one synchronous run; the fetch and the \<^verbatim>\<open>stat\<close> then settle in the
  order the native side answers.
\<close>

definition componentWillMount ::
  "world \<Rightarrow> deps \<Rightarrow> useQueryParamsInCacheKey \<Rightarrow> source \<Rightarrow> sys \<Rightarrow> sys" where
  "componentWillMount w d pol src s =
     (let s1 = processSource_call d pol src (native NetFetch (native AddListener s))
      in if fetch_first w
         then processSource_settle w d pol src (netFetch_then (connected w) s1)
         else netFetch_then (connected w) (processSource_settle w d pol src s1))"

text \<open>Lines 168-174.\<close>

definition componentWillUnmount :: "sys \<Rightarrow> sys" where
  "componentWillUnmount s =
     (let s1 = native RemoveListener s
      in case jobId (comp s1) of
           Some j \<Rightarrow>
             if downloading (comp s1) \<and> truthy_job (Some j) then native (StopDownload j) s1
             else s1
         | None \<Rightarrow> s1)"

text \<open>A freshly constructed component over a given file system.\<close>

definition fresh :: "(string \<rightharpoonup> kind) \<Rightarrow> sys" where
  "fresh fs = \<lparr>comp = constructor_state, files = fs, trace = []\<rparr>"

section \<open>Auxiliary notions for the statements\<close>

text \<open>
  The values the array branch appends to the path, as one string: for each listed name
  that the query object holds, its value, in the order of the list.
\<close>

definition named_values :: "(string \<rightharpoonup> string) \<Rightarrow> string list \<Rightarrow> string" where
  "named_values q ks = concat (map (\<lambda>k. case q k of Some v \<Rightarrow> v | None \<Rightarrow> []) ks)"

text \<open>The text a parameter contributes: its value, or nothing when the locator lacks it.\<close>

definition value_text :: "string option \<Rightarrow> string" where
  "value_text x = (case x of Some v \<Rightarrow> v | None \<Rightarrow> [])"

text \<open>Which events are directory creations, and which are calls of the download transport.\<close>

fun is_download :: "event \<Rightarrow> bool" where
  "is_download (DownloadFile from to) = True"
| "is_download _ = False"

fun is_mkdir :: "event \<Rightarrow> bool" where
  "is_mkdir (Mkdir d) = True"
| "is_mkdir _ = False"

text \<open>
  Concrete inputs on which the model is evaluated. The components url-parse yields for
  the locator \<^verbatim>\<open>https://cdn.example.com/img/photo.JPG?v=2\<close>; stand-ins for the external
  packages (a hash that returns its argument, a parser that knows this one locator); a
  component that has been told the network is available; a native side on which
  everything succeeds, and one on which the transfer fails after writing part of the file
  and the removal fails too; and the component after it has cached a first image.
\<close>

definition photo_url :: url where
  "photo_url =
     \<lparr>host = ''cdn.example.com'', pathname = ''/img/photo.JPG'', query = [''v'' \<mapsto> ''2'']\<rparr>"

definition toy_deps :: deps where
  "toy_deps = \<lparr>SHA1 = id, parseURL = (\<lambda>uri. photo_url), DocumentDirectoryPath = ''/docs''\<rparr>"

text \<open>A digest of fixed length: the first forty characters, padded with zeros.\<close>

definition toy_digest :: "string \<Rightarrow> string" where
  "toy_digest s = take 40 (s @ replicate 40 CHR ''0'')"

definition online :: "(string \<rightharpoonup> kind) \<Rightarrow> sys" where
  "online fs = handleConnectivityChange True (fresh fs)"

definition good_world :: world where
  "good_world = \<lparr>mkdir_ok = True, dl_begin = Some 1, dl_progress = [(100, 40), (100, 100)],
     dl_ok = True, dl_partial = False, unlink_ok = True, connected = True, fetch_first = False\<rparr>"

definition failing_world :: world where
  "failing_world = \<lparr>mkdir_ok = True, dl_begin = Some 1, dl_progress = [(100, 40)],
     dl_ok = False, dl_partial = True, unlink_ok = False, connected = True, fetch_first = False\<rparr>"

definition cached_old :: sys where
  "cached_old = checkImageCache good_world ''/docs'' ''https://cdn.example.com/img/old.JPG''
     ''cdn.example.com'' ''old.JPG'' (online Map.empty)"

section \<open>Lemmas\<close>

lemmas handler_defs = setState_def native_def stat_then_def stat_catch_def mkdir_settle_def
  mkdir_then_def mkdir_catch_def download_settle_def download_then_def download_catch_def
  deleteFilePath_call_def deleteFilePath_then_def checkImageCache_def checkImageCache_call_def
  checkImageCache_settle_def imageDownloadBegin_def imageDownloadProgress_def

subsection \<open>The extension\<close>

lemma replace_dot_capture_one_line:
  assumes "list_all (\<lambda>c. \<not> lineTerminator c) s"
  shows "replace_dot_capture s = (if CHR ''.'' \<in> set s then afterLastDot s else s)"
proof -
  from assms have all: "\<forall>c\<in>set s. \<not> lineTerminator c" by (simp add: list_all_iff)
  then have t: "takeWhile (\<lambda>c. \<not> lineTerminator c) s = s" by simp
  from all have d: "dropWhile (\<lambda>c. \<not> lineTerminator c) s = []" by simp
  show ?thesis
    by (subst replace_dot_capture.simps) (simp add: t d)
qed

lemma length_afterLastDot:
  assumes "CHR ''.'' \<in> set s"
  shows "length (afterLastDot s) < length s"
proof -
  let ?P = "\<lambda>c. c \<noteq> CHR ''.''"
  have "takeWhile ?P (rev s) \<noteq> rev s"
    using assms by auto
  moreover have "length (takeWhile ?P (rev s)) \<le> length (rev s)"
    by (rule length_takeWhile_le)
  moreover have "length (takeWhile ?P (rev s)) = length (rev s) \<Longrightarrow> takeWhile ?P (rev s) = rev s"
    by (metis append_eq_conv_conj takeWhile_dropWhile_id take_all order_refl)
  ultimately have "length (takeWhile ?P (rev s)) < length (rev s)"
    by fastforce
  then show ?thesis by (simp add: afterLastDot_def)
qed

lemma afterLastDot_no_dot:
  assumes "CHR ''.'' \<notin> set s"
  shows "afterLastDot s = s"
proof -
  have "takeWhile (\<lambda>c. c \<noteq> CHR ''.'') (rev s) = rev s"
    using assms by auto
  then show ?thesis unfolding afterLastDot_def by (simp only: rev_rev_ident)
qed

lemma extension_one_line:
  assumes "list_all (\<lambda>c. \<not> lineTerminator c) (pathname u)"
  shows "processSource_extension u =
    (if length (afterLastDot (pathname u)) < length (pathname u)
     then afterLastDot (pathname u) else '''')"
  using assms
  by (auto simp: processSource_extension_def processSource_type_def replace_dot_capture_one_line
      length_afterLastDot afterLastDot_no_dot)

lemma extension_query_irrelevant:
  "processSource_extension (u\<lparr>query := q\<rparr>) = processSource_extension u"
  by (simp add: processSource_extension_def processSource_type_def)

subsection \<open>The values of the named parameters\<close>

lemma fold_named_values:
  "fold (\<lambda>k acc. case q k of Some v \<Rightarrow> acc @ v | None \<Rightarrow> acc) ks acc = acc @ named_values q ks"
  by (induction ks arbitrary: acc) (auto simp: named_values_def split: option.splits)

lemma cacheable_Names:
  "processSource_cacheable (Names ks) u = pathname u @ named_values (query u) ks"
  by (simp add: fold_named_values)

lemma named_values_unlisted:
  "p \<notin> set ks \<Longrightarrow> named_values (q(p := x)) ks = named_values q ks"
  by (induction ks) (auto simp: named_values_def)

lemma named_values_text:
  "named_values q ks = concat (map (\<lambda>k. value_text (q k)) ks)"
  by (simp add: named_values_def value_text_def)

text \<open>
  Setting one listed parameter changes the length of the appended text by the difference
  of the two values' lengths, once per occurrence of the name in the list.
\<close>

lemma length_named_values_set:
  "length (named_values (q(k := y)) ks) + count_list ks k * length (value_text (q k))
     = length (named_values q ks) + count_list ks k * length (value_text y)"
  by (induction ks) (auto simp: named_values_text)

lemma named_values_set_inj:
  assumes "k \<in> set ks" and "length (value_text y) = length (value_text (q k))"
    and "named_values (q(k := y)) ks = named_values q ks"
  shows "value_text y = value_text (q k)"
  using assms(1,3)
proof (induction ks)
  case Nil
  then show ?case by simp
next
  case (Cons j ks)
  show ?case
  proof (cases "j = k")
    case True
    with Cons.prems(2)
    have "value_text y @ named_values (q(k := y)) ks = value_text (q k) @ named_values q ks"
      by (simp add: named_values_text)
    with assms(2) show ?thesis by simp
  next
    case False
    with Cons.prems have "k \<in> set ks" and "named_values (q(k := y)) ks = named_values q ks"
      by (auto simp: named_values_text)
    then show ?thesis by (rule Cons.IH)
  qed
qed

lemma named_values_set_changed:
  assumes "k \<in> set ks" and "value_text y \<noteq> value_text (q k)"
  shows "named_values (q(k := y)) ks \<noteq> named_values q ks"
proof
  assume eq: "named_values (q(k := y)) ks = named_values q ks"
  have "count_list ks k \<noteq> 0" using assms(1) by (simp add: count_list_0_iff)
  then have pos: "0 < count_list ks k" by simp
  from length_named_values_set [of q k y ks] eq
  have "count_list ks k * length (value_text (q k)) = count_list ks k * length (value_text y)"
    by simp
  with pos have "length (value_text y) = length (value_text (q k))" by simp
  with named_values_set_inj [of k ks y q] assms eq show False by simp
qed

lemma cacheKey_eq_iff:
  assumes "pathname u' = pathname u"
  shows "processSource_cacheKey sha1 pol u' = processSource_cacheKey sha1 pol u
     \<longleftrightarrow> sha1 (processSource_cacheable pol u') = sha1 (processSource_cacheable pol u)"
proof -
  have "processSource_extension u' = processSource_extension u"
    using assms by (simp add: processSource_extension_def processSource_type_def)
  then show ?thesis by (simp add: processSource_cacheKey_def)
qed

subsection \<open>The progress test\<close>

lemma js_divide_one: "js_divide a b = Some 1 \<longleftrightarrow> b \<noteq> 0 \<and> a = b"
  by (auto simp: js_divide_def)

subsection \<open>What the callbacks leave untouched\<close>

lemma progress_network:
  "networkAvailable (comp (imageDownloadProgress cl bw s)) = networkAvailable (comp s)"
  by (simp add: imageDownloadProgress_def setState_def)

lemma progress_files: "files (imageDownloadProgress cl bw s) = files s"
  by (simp add: imageDownloadProgress_def setState_def)

lemma progress_fold_network:
  "networkAvailable (comp (fold (\<lambda>(contentLength, bytesWritten).
       imageDownloadProgress contentLength bytesWritten) ps s)) = networkAvailable (comp s)"
  by (induction ps arbitrary: s) (simp_all add: progress_network split: prod.split)

lemma progress_fold_files:
  "files (fold (\<lambda>(contentLength, bytesWritten).
       imageDownloadProgress contentLength bytesWritten) ps s) = files s"
  by (induction ps arbitrary: s) (simp_all add: progress_files split: prod.split)

lemma begin_network: "networkAvailable (comp (imageDownloadBegin j s)) = networkAvailable (comp s)"
  by (simp add: imageDownloadBegin_def setState_def)

lemma begin_files: "files (imageDownloadBegin j s) = files s"
  by (simp add: imageDownloadBegin_def setState_def)

lemma download_then_network:
  "networkAvailable (comp (download_then p s)) = networkAvailable (comp s)"
  by (simp add: download_then_def setState_def)

lemma download_catch_network:
  "networkAvailable (comp (download_catch w p s)) = networkAvailable (comp s)"
  by (simp add: download_catch_def deleteFilePath_then_def deleteFilePath_call_def
      setState_def native_def Let_def)

lemma mkdir_catch_network:
  "networkAvailable (comp (mkdir_catch w p s)) = networkAvailable (comp s)"
  by (simp add: mkdir_catch_def deleteFilePath_then_def deleteFilePath_call_def
      setState_def native_def Let_def)

text \<open>The transfer, with the state after \<^verbatim>\<open>begin\<close> and the progress observations named.\<close>

lemma download_settle_unfold:
  "download_settle w p s =
     (let s2 = fold (\<lambda>(contentLength, bytesWritten).
                  imageDownloadProgress contentLength bytesWritten) (dl_progress w)
                 (case dl_begin w of Some j \<Rightarrow> imageDownloadBegin j s | None \<Rightarrow> s)
      in if dl_ok w then download_then p (s2\<lparr>files := (files s2)(p \<mapsto> RegularFile)\<rparr>)
         else download_catch w p
                (s2\<lparr>files := (if dl_partial w then (files s2)(p \<mapsto> RegularFile)
                                else files s2)\<rparr>))"
  by (simp add: download_settle_def Let_def)

lemma download_settle_network:
  "networkAvailable (comp (download_settle w p s)) = networkAvailable (comp s)"
proof -
  define s1 where "s1 = (case dl_begin w of Some j \<Rightarrow> imageDownloadBegin j s | None \<Rightarrow> s)"
  define s2 where "s2 = fold (\<lambda>(contentLength, bytesWritten).
       imageDownloadProgress contentLength bytesWritten) (dl_progress w) s1"
  have n1: "networkAvailable (comp s1) = networkAvailable (comp s)"
    by (simp add: s1_def begin_network split: option.split)
  have n2: "networkAvailable (comp s2) = networkAvailable (comp s)"
    by (simp add: s2_def progress_fold_network n1)
  have "download_settle w p s =
     (if dl_ok w then download_then p (s2\<lparr>files := (files s2)(p \<mapsto> RegularFile)\<rparr>)
      else download_catch w p
             (s2\<lparr>files := (if dl_partial w then (files s2)(p \<mapsto> RegularFile) else files s2)\<rparr>))"
    by (simp add: download_settle_unfold s1_def s2_def Let_def)
  then show ?thesis
    by (simp add: download_then_network download_catch_network n2)
qed

lemma download_settle_files:
  "files (download_settle w p s) p
     = (if dl_ok w then Some RegularFile
        else if unlink_ok w then None
        else if dl_partial w then Some RegularFile
        else files s p)"
proof -
  define s1 where "s1 = (case dl_begin w of Some j \<Rightarrow> imageDownloadBegin j s | None \<Rightarrow> s)"
  define s2 where "s2 = fold (\<lambda>(contentLength, bytesWritten).
       imageDownloadProgress contentLength bytesWritten) (dl_progress w) s1"
  have f1: "files s1 = files s"
    by (simp add: s1_def begin_files split: option.split)
  have f2: "files s2 = files s"
    by (simp add: s2_def progress_fold_files f1)
  have "download_settle w p s =
     (if dl_ok w then download_then p (s2\<lparr>files := (files s2)(p \<mapsto> RegularFile)\<rparr>)
      else download_catch w p
             (s2\<lparr>files := (if dl_partial w then (files s2)(p \<mapsto> RegularFile) else files s2)\<rparr>))"
    by (simp add: download_settle_unfold s1_def s2_def Let_def)
  then show ?thesis
    by (simp add: download_then_def download_catch_def deleteFilePath_then_def
        deleteFilePath_call_def setState_def native_def Let_def f2 domIff)
qed

lemma mkdir_settle_network:
  "networkAvailable (comp (mkdir_settle w u d p s)) = networkAvailable (comp s)"
  by (simp add: mkdir_settle_def mkdir_then_def Let_def mkdir_catch_network
      download_settle_network native_def)

lemma stat_catch_network:
  "networkAvailable (comp (stat_catch w u d p s)) = networkAvailable (comp s)"
  by (simp add: stat_catch_def mkdir_settle_network setState_def native_def)

lemma stat_then_network:
  "networkAvailable (comp (stat_then p b s)) = networkAvailable (comp s)"
  by (simp add: stat_then_def setState_def)

lemma checkImageCache_settle_network:
  "networkAvailable (comp (checkImageCache_settle w docDir imageUri cachePath cacheKey s))
     = networkAvailable (comp s)"
  by (simp add: checkImageCache_settle_def Let_def stat_then_network stat_catch_network
      split: option.split)

lemma processSource_network:
  "networkAvailable (comp (processSource w d pol src s)) = networkAvailable (comp s)"
  by (simp add: processSource_def processSource_settle_def processSource_call_def Let_def
      checkImageCache_settle_network checkImageCache_call_def setState_def native_def
      split: option.split)

lemma componentWillUnmount_network:
  "networkAvailable (comp (componentWillUnmount s)) = networkAvailable (comp s)"
  by (simp add: componentWillUnmount_def native_def Let_def split: option.split)

subsection \<open>A miss while a cached entry is still held\<close>

text \<open>
  With the network available and \<^verbatim>\<open>mkdir\<close> resolving, a miss in a state that holds a
  cacheable entry with a truthy path runs into the call of line 82, and the \<^verbatim>\<open>catch\<close> of
  line 106 takes over.
\<close>

lemma superseded_entry_throws:
  assumes "files s (docDir @ ''/'' @ cachePath @ ''/'' @ cacheKey) = None"
    and "networkAvailable (comp s)" and "mkdir_ok w"
    and "cacheable (comp s)" and "truthy_path (cachedImagePath (comp s))"
  shows "checkImageCache w docDir imageUri cachePath cacheKey s
         = s\<lparr>comp := (comp s)\<lparr>cacheable := False, cachedImagePath := None\<rparr>,
             files := (files s)(docDir @ ''/'' @ cachePath \<mapsto> Directory),
             trace := trace s @
               [Stat (docDir @ ''/'' @ cachePath @ ''/'' @ cacheKey),
                Mkdir (docDir @ ''/'' @ cachePath),
                Exists (docDir @ ''/'' @ cachePath @ ''/'' @ cacheKey),
                SetState ((comp s)\<lparr>cacheable := False, cachedImagePath := None\<rparr>)]\<rparr>"
  using assms
  by (simp add: checkImageCache_def checkImageCache_call_def checkImageCache_settle_def
      stat_catch_def mkdir_settle_def mkdir_then_def mkdir_catch_def deleteFilePath_then_def
      deleteFilePath_call_def setState_def native_def Let_def domIff)

lemma comp_cached_old:
  "comp cached_old =
     \<lparr>isRemote = False, cachedImagePath = Some ''/docs/cdn.example.com/old.JPG'',
      downloading = False, cacheable = True, jobId = None, networkAvailable = True\<rparr>"
  by (simp add: cached_old_def handler_defs online_def handleConnectivityChange_def fresh_def
      constructor_state_def good_world_def truthy_path_def js_divide_def Let_def)

lemma files_cached_old:
  "files cached_old = [''/docs/cdn.example.com'' \<mapsto> Directory,
                       ''/docs/cdn.example.com/old.JPG'' \<mapsto> RegularFile]"
  by (simp add: cached_old_def handler_defs online_def handleConnectivityChange_def fresh_def
      constructor_state_def good_world_def truthy_path_def js_divide_def Let_def)

section \<open>The claims\<close>

subsection \<open>C1: a miss while an earlier entry is held\<close>

text \<open>
  C1. On a miss with the network available, once the storage directory exists, the file
  of an earlier cacheable entry is to be deleted and the transfer to the new path started.
  Evaluated on the component that has cached \<^verbatim>\<open>old.JPG\<close> and is asked for
  \<^verbatim>\<open>new.JPG\<close>, with a native side on which \<^verbatim>\<open>mkdir\<close> and the transfer would succeed:
  the state holds a cacheable entry with a path, so line 82 is reached and throws; the
  events after the earlier ones are the \<^verbatim>\<open>stat\<close>, the \<^verbatim>\<open>mkdir\<close>, the existence check
  of the new path and the update to a state that is not cacheable and has no path. No
  transfer is started, nothing is unlinked, the old file is still there and the new one
  is not.
\<close>

theorem superseded_entry_not_deleted_no_download:
  "cacheable (comp cached_old)
   \<and> cachedImagePath (comp cached_old) = Some ''/docs/cdn.example.com/old.JPG''
   \<and> networkAvailable (comp cached_old)
   \<and> files cached_old ''/docs/cdn.example.com/old.JPG'' = Some RegularFile
   \<and> files cached_old ''/docs/cdn.example.com/new.JPG'' = None
   \<and> mkdir_ok good_world \<and> dl_ok good_world
   \<and> trace (checkImageCache good_world ''/docs'' ''https://cdn.example.com/img/new.JPG''
        ''cdn.example.com'' ''new.JPG'' cached_old)
     = trace cached_old @
       [Stat ''/docs/cdn.example.com/new.JPG'', Mkdir ''/docs/cdn.example.com'',
        Exists ''/docs/cdn.example.com/new.JPG'',
        SetState \<lparr>isRemote = False, cachedImagePath = None, downloading = False,
          cacheable = False, jobId = None, networkAvailable = True\<rparr>]
   \<and> files (checkImageCache good_world ''/docs'' ''https://cdn.example.com/img/new.JPG''
        ''cdn.example.com'' ''new.JPG'' cached_old) ''/docs/cdn.example.com/old.JPG''
     = Some RegularFile
   \<and> files (checkImageCache good_world ''/docs'' ''https://cdn.example.com/img/new.JPG''
        ''cdn.example.com'' ''new.JPG'' cached_old) ''/docs/cdn.example.com/new.JPG''
     = None"
proof -
  have a: "files cached_old (''/docs'' @ ''/'' @ ''cdn.example.com'' @ ''/'' @ ''new.JPG'') = None"
    by (simp add: files_cached_old)
  have b: "networkAvailable (comp cached_old)" "cacheable (comp cached_old)"
    "truthy_path (cachedImagePath (comp cached_old))"
    by (simp_all add: comp_cached_old truthy_path_def)
  have c: "mkdir_ok good_world" "dl_ok good_world" by (simp_all add: good_world_def)
  note run = superseded_entry_throws [OF a b(1) c(1) b(2) b(3),
      of "''https://cdn.example.com/img/new.JPG''"]
  show ?thesis
    unfolding run by (simp add: comp_cached_old files_cached_old c)
qed

subsection \<open>C2: the policy that includes all query parameters\<close>

text \<open>
  C2. With the policy "all", the identity string is to be the path with the full query
  string appended, so that locators with the same path and different queries get
  different keys. In the code the branch of line 143 concatenates the query object, which
  renders as \<^verbatim>\<open>[object Object]\<close> whatever it holds: the identity string is the path
  followed by these fifteen characters, and the locators \<^verbatim>\<open>.../img/photo.JPG?v=1\<close> and
  \<^verbatim>\<open>.../img/photo.JPG?v=2\<close> get the same key under every hash.
\<close>

theorem all_query_params_same_key:
  "processSource_cacheable (Flag True) u = pathname u @ ''[object Object]''
   \<and> processSource_cacheKey sha1 (Flag True)
       \<lparr>host = ''cdn.example.com'', pathname = ''/img/photo.JPG'', query = [''v'' \<mapsto> ''1'']\<rparr>
     = processSource_cacheKey sha1 (Flag True)
       \<lparr>host = ''cdn.example.com'', pathname = ''/img/photo.JPG'', query = [''v'' \<mapsto> ''2'']\<rparr>"
  by (simp add: object_toString_def processSource_cacheKey_def processSource_extension_def
      processSource_type_def)

subsection \<open>C3: progress observations\<close>

text \<open>
  C3, as the code has it. A progress observation clears the downloading flag and the
  remembered job id exactly when the bytes written equal the content length and are not
  zero (the test of line 46 is a quotient, and 0/0 is not 1); any other observation
  leaves the whole state as it was. No progress observation touches the cacheable flag or
  the cached path. Whatever the transfer reports on the way, after its terminal callback
  the entry is cacheable with the destination path exactly when the transfer succeeded.
\<close>

theorem progress_clears_downloading:
  "(if bytesWritten \<noteq> 0 \<and> bytesWritten = contentLength
    then \<not> downloading (comp (imageDownloadProgress contentLength bytesWritten s))
         \<and> jobId (comp (imageDownloadProgress contentLength bytesWritten s)) = None
    else imageDownloadProgress contentLength bytesWritten s = s)
   \<and> cacheable (comp (imageDownloadProgress contentLength bytesWritten s)) = cacheable (comp s)
   \<and> cachedImagePath (comp (imageDownloadProgress contentLength bytesWritten s))
       = cachedImagePath (comp s)
   \<and> cacheable (comp (download_settle w filePath s)) = dl_ok w
   \<and> cachedImagePath (comp (download_settle w filePath s))
       = (if dl_ok w then Some filePath else None)"
  by (auto simp: imageDownloadProgress_def js_divide_one setState_def download_settle_def
      download_then_def download_catch_def deleteFilePath_then_def deleteFilePath_call_def
      native_def Let_def)

text \<open>
  C3 as stated fails for an observation of 0 bytes written out of 0: the two numbers
  are equal, and a component that is downloading job 1 keeps the flag and the job id.
\<close>

theorem progress_zero_of_zero_keeps_downloading:
  "downloading (comp (imageDownloadProgress 0 0 (imageDownloadBegin 1 (fresh Map.empty))))
   \<and> jobId (comp (imageDownloadProgress 0 0 (imageDownloadBegin 1 (fresh Map.empty)))) = Some 1"
  by (simp add: imageDownloadProgress_def js_divide_def imageDownloadBegin_def setState_def
      fresh_def)

subsection \<open>C4: the policy that names parameters\<close>

text \<open>
  C4, as the code has it. Under a policy that lists names, adding, removing or changing
  a parameter whose name is not listed leaves the key as it is. Changing one listed
  parameter, and nothing else, to a different value (a parameter the locator does not
  carry counting as one with the empty value) changes the identity string; the two keys
  are then equal exactly when the hash gives the same digest for these two different
  identity strings, whatever the hash is.
\<close>

theorem named_params_key:
  "(p \<notin> set ks \<longrightarrow>
      processSource_cacheKey sha1 (Names ks) (u\<lparr>query := (query u)(p := x)\<rparr>)
        = processSource_cacheKey sha1 (Names ks) u)
   \<and> (k \<in> set ks \<and> value_text y \<noteq> value_text (query u k) \<longrightarrow>
      processSource_cacheable (Names ks) (u\<lparr>query := (query u)(k := y)\<rparr>)
        \<noteq> processSource_cacheable (Names ks) u
      \<and> (processSource_cacheKey sha1 (Names ks) (u\<lparr>query := (query u)(k := y)\<rparr>)
           = processSource_cacheKey sha1 (Names ks) u
         \<longleftrightarrow> sha1 (processSource_cacheable (Names ks) (u\<lparr>query := (query u)(k := y)\<rparr>))
           = sha1 (processSource_cacheable (Names ks) u)))"
proof (intro conjI impI)
  assume "p \<notin> set ks"
  then show "processSource_cacheKey sha1 (Names ks) (u\<lparr>query := (query u)(p := x)\<rparr>)
        = processSource_cacheKey sha1 (Names ks) u"
    by (simp add: processSource_cacheKey_def cacheable_Names named_values_unlisted
        extension_query_irrelevant del: processSource_cacheable.simps)
next
  assume a: "k \<in> set ks \<and> value_text y \<noteq> value_text (query u k)"
  then have "named_values ((query u)(k := y)) ks \<noteq> named_values (query u) ks"
    by (simp add: named_values_set_changed)
  then show "processSource_cacheable (Names ks) (u\<lparr>query := (query u)(k := y)\<rparr>)
        \<noteq> processSource_cacheable (Names ks) u"
    by (simp add: cacheable_Names del: processSource_cacheable.simps)
next
  have "pathname (u\<lparr>query := (query u)(k := y)\<rparr>) = pathname u" by simp
  then show "processSource_cacheKey sha1 (Names ks) (u\<lparr>query := (query u)(k := y)\<rparr>)
           = processSource_cacheKey sha1 (Names ks) u
         \<longleftrightarrow> sha1 (processSource_cacheable (Names ks) (u\<lparr>query := (query u)(k := y)\<rparr>))
           = sha1 (processSource_cacheable (Names ks) u)"
    by (rule cacheKey_eq_iff)
qed

text \<open>
  The locator of the scenario under the policy that lists \<^verbatim>\<open>v\<close>, with a digest of fixed
  length: a parameter \<^verbatim>\<open>w\<close> does not change the key; the value 3 for \<^verbatim>\<open>v\<close> instead of 2
  changes the identity string, the digests of the two strings differ, and so do the keys.
\<close>

theorem named_params_key_witness:
  "''w'' \<notin> set [''v''] \<and>
   processSource_cacheKey toy_digest (Names [''v''])
       (photo_url\<lparr>query := (query photo_url)(''w'' := Some ''9'')\<rparr>)
     = processSource_cacheKey toy_digest (Names [''v'']) photo_url \<and>
   ''v'' \<in> set [''v''] \<and> value_text (Some ''3'') \<noteq> value_text (query photo_url ''v'') \<and>
   processSource_cacheable (Names [''v'']) (photo_url\<lparr>query := (query photo_url)(''v'' := Some ''3'')\<rparr>)
     = ''/img/photo.JPG3'' \<and>
   processSource_cacheable (Names [''v'']) photo_url = ''/img/photo.JPG2'' \<and>
   toy_digest ''/img/photo.JPG3'' \<noteq> toy_digest ''/img/photo.JPG2'' \<and>
   processSource_cacheKey toy_digest (Names [''v''])
       (photo_url\<lparr>query := (query photo_url)(''v'' := Some ''3'')\<rparr>)
     \<noteq> processSource_cacheKey toy_digest (Names [''v'']) photo_url"
proof -
  have h1: "''w'' \<notin> set [''v'']" by simp
  have h2: "''v'' \<in> set [''v''] \<and> value_text (Some ''3'') \<noteq> value_text (query photo_url ''v'')"
    by (simp add: value_text_def photo_url_def)
  have c1: "processSource_cacheable (Names [''v''])
      (photo_url\<lparr>query := (query photo_url)(''v'' := Some ''3'')\<rparr>) = ''/img/photo.JPG3''"
    by (simp add: photo_url_def)
  have c2: "processSource_cacheable (Names [''v'']) photo_url = ''/img/photo.JPG2''"
    by (simp add: photo_url_def)
  have d: "toy_digest ''/img/photo.JPG3'' \<noteq> toy_digest ''/img/photo.JPG2''"
    by (simp add: toy_digest_def)
  note inst = named_params_key [of "''w''" "[''v'']" toy_digest photo_url "Some ''9''" "''v''"
      "Some ''3''"]
  from inst h1 have k1: "processSource_cacheKey toy_digest (Names [''v''])
       (photo_url\<lparr>query := (query photo_url)(''w'' := Some ''9'')\<rparr>)
     = processSource_cacheKey toy_digest (Names [''v'']) photo_url" by blast
  from inst h2 have e: "processSource_cacheKey toy_digest (Names [''v''])
           (photo_url\<lparr>query := (query photo_url)(''v'' := Some ''3'')\<rparr>)
           = processSource_cacheKey toy_digest (Names [''v'']) photo_url
         \<longleftrightarrow> toy_digest (processSource_cacheable (Names [''v''])
               (photo_url\<lparr>query := (query photo_url)(''v'' := Some ''3'')\<rparr>))
           = toy_digest (processSource_cacheable (Names [''v'']) photo_url)" by blast
  have k2: "processSource_cacheKey toy_digest (Names [''v''])
       (photo_url\<lparr>query := (query photo_url)(''v'' := Some ''3'')\<rparr>)
     \<noteq> processSource_cacheKey toy_digest (Names [''v'']) photo_url"
    using e d unfolding c1 c2 by blast
  from h1 h2 c1 c2 d k1 k2 show ?thesis by blast
qed

text \<open>
  C4 as stated fails, with a hash that has no collision at all. The values are appended
  without a separator, so two locators can differ in the values of listed parameters and
  still get the same key: under the policy that lists \<^verbatim>\<open>a\<close> and \<^verbatim>\<open>b\<close>, the queries
  \<^verbatim>\<open>a=1&b=23\<close> and \<^verbatim>\<open>a=12&b=3\<close> both give the identity string \<^verbatim>\<open>/p123\<close>. And a listed
  parameter with the empty value appends nothing: under the policy that lists \<^verbatim>\<open>v\<close>, the
  query \<^verbatim>\<open>v=\<close> and the empty query both give \<^verbatim>\<open>/p\<close>.
\<close>

theorem named_params_concatenation_collides:
  "query \<lparr>host = ''h'', pathname = ''/p'', query = [''a'' \<mapsto> ''1'', ''b'' \<mapsto> ''23'']\<rparr> ''a''
     \<noteq> query \<lparr>host = ''h'', pathname = ''/p'', query = [''a'' \<mapsto> ''12'', ''b'' \<mapsto> ''3'']\<rparr> ''a''
   \<and> inj (id :: string \<Rightarrow> string)
   \<and> processSource_cacheable (Names [''a'', ''b''])
        \<lparr>host = ''h'', pathname = ''/p'', query = [''a'' \<mapsto> ''1'', ''b'' \<mapsto> ''23'']\<rparr> = ''/p123''
   \<and> processSource_cacheable (Names [''a'', ''b''])
        \<lparr>host = ''h'', pathname = ''/p'', query = [''a'' \<mapsto> ''12'', ''b'' \<mapsto> ''3'']\<rparr> = ''/p123''
   \<and> processSource_cacheKey id (Names [''a'', ''b''])
        \<lparr>host = ''h'', pathname = ''/p'', query = [''a'' \<mapsto> ''1'', ''b'' \<mapsto> ''23'']\<rparr>
     = processSource_cacheKey id (Names [''a'', ''b''])
        \<lparr>host = ''h'', pathname = ''/p'', query = [''a'' \<mapsto> ''12'', ''b'' \<mapsto> ''3'']\<rparr>
   \<and> query \<lparr>host = ''h'', pathname = ''/p'', query = [''v'' \<mapsto> '''']\<rparr> ''v''
     \<noteq> query \<lparr>host = ''h'', pathname = ''/p'', query = Map.empty\<rparr> ''v''
   \<and> processSource_cacheable (Names [''v''])
        \<lparr>host = ''h'', pathname = ''/p'', query = [''v'' \<mapsto> '''']\<rparr> = ''/p''
   \<and> processSource_cacheable (Names [''v''])
        \<lparr>host = ''h'', pathname = ''/p'', query = Map.empty\<rparr> = ''/p''
   \<and> processSource_cacheKey id (Names [''v''])
        \<lparr>host = ''h'', pathname = ''/p'', query = [''v'' \<mapsto> '''']\<rparr>
     = processSource_cacheKey id (Names [''v''])
        \<lparr>host = ''h'', pathname = ''/p'', query = Map.empty\<rparr>"
  by (simp add: processSource_cacheKey_def processSource_extension_def processSource_type_def)

subsection \<open>C5: a miss without network\<close>

text \<open>
  C5. When the derived path does not exist and the network flag is off, the resolution
  sets the state to not cacheable with no path, and does nothing else: after the
  \<^verbatim>\<open>stat\<close> the only event is that update, so neither \<^verbatim>\<open>mkdir\<close> nor the download
  transport is called, and the file system is as before.
\<close>

theorem miss_offline_unavailable:
  assumes "files s (docDir @ ''/'' @ cachePath @ ''/'' @ cacheKey) = None"
    and "\<not> networkAvailable (comp s)"
  shows "checkImageCache w docDir imageUri cachePath cacheKey s
         = s\<lparr>comp := (comp s)\<lparr>cacheable := False, cachedImagePath := None\<rparr>,
             trace := trace s @
               [Stat (docDir @ ''/'' @ cachePath @ ''/'' @ cacheKey),
                SetState ((comp s)\<lparr>cacheable := False, cachedImagePath := None\<rparr>)]\<rparr>
       \<and> filter is_mkdir (trace (checkImageCache w docDir imageUri cachePath cacheKey s))
         = filter is_mkdir (trace s)
       \<and> filter is_download (trace (checkImageCache w docDir imageUri cachePath cacheKey s))
         = filter is_download (trace s)"
  using assms
  by (simp add: checkImageCache_def checkImageCache_call_def checkImageCache_settle_def
      stat_catch_def setState_def native_def Let_def)

text \<open>A freshly constructed component over an empty file system.\<close>

theorem miss_offline_unavailable_witness:
  "files (fresh Map.empty) (''/docs'' @ ''/'' @ ''cdn.example.com'' @ ''/'' @ ''k.JPG'') = None
   \<and> \<not> networkAvailable (comp (fresh Map.empty))
   \<and> comp (checkImageCache good_world ''/docs'' ''https://cdn.example.com/img/photo.JPG''
        ''cdn.example.com'' ''k.JPG'' (fresh Map.empty))
     = constructor_state\<lparr>cacheable := False, cachedImagePath := None\<rparr>
   \<and> trace (checkImageCache good_world ''/docs'' ''https://cdn.example.com/img/photo.JPG''
        ''cdn.example.com'' ''k.JPG'' (fresh Map.empty))
     = [Stat ''/docs/cdn.example.com/k.JPG'',
        SetState (constructor_state\<lparr>cacheable := False, cachedImagePath := None\<rparr>)]"
proof -
  have a: "files (fresh Map.empty) (''/docs'' @ ''/'' @ ''cdn.example.com'' @ ''/'' @ ''k.JPG'') = None"
    by (simp add: fresh_def)
  have b: "\<not> networkAvailable (comp (fresh Map.empty))"
    by (simp add: fresh_def constructor_state_def)
  from miss_offline_unavailable [OF a b, of good_world "''https://cdn.example.com/img/photo.JPG''"]
  show ?thesis using a b by (simp add: fresh_def)
qed

subsection \<open>C6: a hit\<close>

text \<open>
  C6. When the derived path exists and is a regular file, the resolution sets the state
  to cacheable with that path; after the \<^verbatim>\<open>stat\<close> the only event is that update, so the
  download transport is not called.
\<close>

theorem hit_cached_no_download:
  assumes "files s (docDir @ ''/'' @ cachePath @ ''/'' @ cacheKey) = Some RegularFile"
  shows "checkImageCache w docDir imageUri cachePath cacheKey s
         = s\<lparr>comp := (comp s)\<lparr>cacheable := True,
                 cachedImagePath := Some (docDir @ ''/'' @ cachePath @ ''/'' @ cacheKey)\<rparr>,
             trace := trace s @
               [Stat (docDir @ ''/'' @ cachePath @ ''/'' @ cacheKey),
                SetState ((comp s)\<lparr>cacheable := True,
                   cachedImagePath := Some (docDir @ ''/'' @ cachePath @ ''/'' @ cacheKey)\<rparr>)]\<rparr>
       \<and> filter is_download (trace (checkImageCache w docDir imageUri cachePath cacheKey s))
         = filter is_download (trace s)"
  using assms
  by (simp add: checkImageCache_def checkImageCache_call_def checkImageCache_settle_def
      stat_then_def setState_def native_def Let_def)

text \<open>A connected component whose file is on disk.\<close>

theorem hit_cached_no_download_witness:
  "files (online [''/docs/cdn.example.com/k.JPG'' \<mapsto> RegularFile])
     (''/docs'' @ ''/'' @ ''cdn.example.com'' @ ''/'' @ ''k.JPG'') = Some RegularFile
   \<and> cacheable (comp (checkImageCache good_world ''/docs'' ''https://cdn.example.com/img/photo.JPG''
        ''cdn.example.com'' ''k.JPG'' (online [''/docs/cdn.example.com/k.JPG'' \<mapsto> RegularFile])))
   \<and> cachedImagePath (comp (checkImageCache good_world ''/docs''
        ''https://cdn.example.com/img/photo.JPG'' ''cdn.example.com'' ''k.JPG''
        (online [''/docs/cdn.example.com/k.JPG'' \<mapsto> RegularFile])))
     = Some ''/docs/cdn.example.com/k.JPG''
   \<and> filter is_download (trace (checkImageCache good_world ''/docs''
        ''https://cdn.example.com/img/photo.JPG'' ''cdn.example.com'' ''k.JPG''
        (online [''/docs/cdn.example.com/k.JPG'' \<mapsto> RegularFile])))
     = []"
proof -
  have a: "files (online [''/docs/cdn.example.com/k.JPG'' \<mapsto> RegularFile])
     (''/docs'' @ ''/'' @ ''cdn.example.com'' @ ''/'' @ ''k.JPG'') = Some RegularFile"
    by (simp add: online_def handleConnectivityChange_def setState_def fresh_def)
  from hit_cached_no_download [OF a, of good_world "''https://cdn.example.com/img/photo.JPG''"]
  show ?thesis using a
    by (simp add: online_def handleConnectivityChange_def setState_def fresh_def)
qed

subsection \<open>C7: a failed transfer\<close>

text \<open>
  C7, as the code has it. The handler of a failed transfer issues the existence check
  for the destination, sets the state to not cacheable with no path, and then, if the
  file exists, unlinks it; the file is gone afterwards when the removal succeeds, and is
  left in place when it fails, which is not surfaced. For the whole transfer: after a
  failure the destination holds no file when the removal succeeds, or when nothing was
  written and nothing was there; the state is not cacheable and has no path in every
  case of failure.
\<close>

theorem failed_download_cleanup:
  "comp (download_catch w p s) = (comp s)\<lparr>cacheable := False, cachedImagePath := None\<rparr>
   \<and> trace (download_catch w p s)
     = trace s @ [Exists p, SetState ((comp s)\<lparr>cacheable := False, cachedImagePath := None\<rparr>)]
         @ (if p \<in> dom (files s) then [Unlink p] else [])
   \<and> files (download_catch w p s) = (if unlink_ok w then (files s)(p := None) else files s)
   \<and> files (download_settle w p s) p
     = (if dl_ok w then Some RegularFile
        else if unlink_ok w then None
        else if dl_partial w then Some RegularFile
        else files s p)
   \<and> cacheable (comp (download_settle w p s)) = dl_ok w
   \<and> cachedImagePath (comp (download_settle w p s)) = (if dl_ok w then Some p else None)"
proof -
  have a: "comp (download_catch w p s) = (comp s)\<lparr>cacheable := False, cachedImagePath := None\<rparr>"
    by (simp add: download_catch_def deleteFilePath_then_def deleteFilePath_call_def
        setState_def native_def Let_def)
  have b: "trace (download_catch w p s)
     = trace s @ [Exists p, SetState ((comp s)\<lparr>cacheable := False, cachedImagePath := None\<rparr>)]
         @ (if p \<in> dom (files s) then [Unlink p] else [])"
    by (simp add: download_catch_def deleteFilePath_then_def deleteFilePath_call_def
        setState_def native_def Let_def)
  have c: "files (download_catch w p s) = (if unlink_ok w then (files s)(p := None) else files s)"
    by (auto simp: download_catch_def deleteFilePath_then_def deleteFilePath_call_def
        setState_def native_def Let_def domIff)
  have d: "cacheable (comp (download_settle w p s)) = dl_ok w"
    by (simp add: download_settle_def download_then_def download_catch_def
        deleteFilePath_then_def deleteFilePath_call_def setState_def native_def Let_def)
  have e: "cachedImagePath (comp (download_settle w p s)) = (if dl_ok w then Some p else None)"
    by (simp add: download_settle_def download_then_def download_catch_def
        deleteFilePath_then_def deleteFilePath_call_def setState_def native_def Let_def)
  from a b c d e download_settle_files [of w p s] show ?thesis by blast
qed

text \<open>
  C7 as stated fails when the removal fails: a connected component misses, the
  transfer writes part of the file and fails, \<^verbatim>\<open>unlink\<close> rejects, and the partial file
  is still at the destination while the state is not cacheable.
\<close>

theorem failed_download_file_remains:
  "\<not> dl_ok failing_world
   \<and> files (online Map.empty) ''/docs/cdn.example.com/k.JPG'' = None
   \<and> files (checkImageCache failing_world ''/docs'' ''https://cdn.example.com/img/photo.JPG''
        ''cdn.example.com'' ''k.JPG'' (online Map.empty)) ''/docs/cdn.example.com/k.JPG''
     = Some RegularFile
   \<and> \<not> cacheable (comp (checkImageCache failing_world ''/docs''
        ''https://cdn.example.com/img/photo.JPG'' ''cdn.example.com'' ''k.JPG'' (online Map.empty)))
   \<and> cachedImagePath (comp (checkImageCache failing_world ''/docs''
        ''https://cdn.example.com/img/photo.JPG'' ''cdn.example.com'' ''k.JPG'' (online Map.empty)))
     = None"
  by (simp add: handler_defs online_def handleConnectivityChange_def fresh_def
      constructor_state_def failing_world_def truthy_path_def js_divide_def Let_def)

subsection \<open>C8: the shape of the key\<close>

text \<open>
  C8. For a path component that holds no line terminator, as the path of a locator
  does, the key is the rendered hash of the identity string, a dot, and the extension:
  the text after the last dot of the path if that text is shorter than the path, and
  nothing otherwise, which leaves a key that ends in the dot. The storage directory is
  the host: the resolution looks for the file at the documents directory, the host and
  the key, joined by slashes. For the locator
  \<^verbatim>\<open>https://cdn.example.com/img/photo.JPG?v=2\<close> without query parameters in the key, the
  identity string is \<^verbatim>\<open>/img/photo.JPG\<close>, the extension \<^verbatim>\<open>JPG\<close> and the directory
  \<^verbatim>\<open>cdn.example.com\<close>.
\<close>

theorem cacheKey_structure:
  assumes "list_all (\<lambda>c. \<not> lineTerminator c) (pathname u)"
  shows "processSource_cacheKey sha1 pol u
           = sha1 (processSource_cacheable pol u) @ ''.'' @
             (if length (afterLastDot (pathname u)) < length (pathname u)
              then afterLastDot (pathname u) else '''')
         \<and> processSource_cachePath u = host u
         \<and> trace (processSource_call d pol (SrcObject (Some uri)) s)
           = trace s @
             [Stat (DocumentDirectoryPath d @ ''/'' @ host (parseURL d uri) @ ''/'' @
                    processSource_cacheKey (SHA1 d) pol (parseURL d uri)),
              SetState ((comp s)\<lparr>isRemote := True\<rparr>)]
         \<and> processSource_cacheable (Flag False) photo_url = ''/img/photo.JPG''
         \<and> processSource_extension photo_url = ''JPG''
         \<and> processSource_cachePath photo_url = ''cdn.example.com''"
proof -
  have key: "processSource_cacheKey sha1 pol u
           = sha1 (processSource_cacheable pol u) @ ''.'' @
             (if length (afterLastDot (pathname u)) < length (pathname u)
              then afterLastDot (pathname u) else '''')"
    unfolding processSource_cacheKey_def using extension_one_line [OF assms] by simp
  have dir: "processSource_cachePath u = host u"
    by (simp add: processSource_cachePath_def)
  have tr: "trace (processSource_call d pol (SrcObject (Some uri)) s)
           = trace s @
             [Stat (DocumentDirectoryPath d @ ''/'' @ host (parseURL d uri) @ ''/'' @
                    processSource_cacheKey (SHA1 d) pol (parseURL d uri)),
              SetState ((comp s)\<lparr>isRemote := True\<rparr>)]"
    by (simp add: processSource_call_def checkImageCache_call_def setState_def native_def
        processSource_cachePath_def Let_def)
  have lt: "list_all (\<lambda>c. \<not> lineTerminator c) (pathname photo_url)"
    by (simp add: photo_url_def lineTerminator_def)
  have sc1: "processSource_cacheable (Flag False) photo_url = ''/img/photo.JPG''"
    by (simp add: photo_url_def)
  have sc2: "processSource_extension photo_url = ''JPG''"
    unfolding extension_one_line [OF lt] by (simp add: photo_url_def afterLastDot_def)
  have sc3: "processSource_cachePath photo_url = ''cdn.example.com''"
    by (simp add: processSource_cachePath_def photo_url_def)
  from key dir tr sc1 sc2 sc3 show ?thesis by blast
qed

text \<open>
  The locator of the scenario, with a hash that returns its argument: the key is the
  identity string, a dot and \<^verbatim>\<open>JPG\<close>, and the file is looked for under the host.
\<close>

theorem cacheKey_structure_witness:
  "list_all (\<lambda>c. \<not> lineTerminator c) (pathname photo_url)
   \<and> processSource_cacheKey id (Flag False) photo_url = ''/img/photo.JPG.JPG''
   \<and> trace (processSource_call toy_deps (Flag False)
         (SrcObject (Some ''https://cdn.example.com/img/photo.JPG?v=2'')) (fresh Map.empty))
       = [Stat ''/docs/cdn.example.com//img/photo.JPG.JPG'',
          SetState (constructor_state\<lparr>isRemote := True\<rparr>)]"
proof -
  have lt: "list_all (\<lambda>c. \<not> lineTerminator c) (pathname photo_url)"
    by (simp add: photo_url_def lineTerminator_def)
  have a: "afterLastDot ''/img/photo.JPG'' = ''JPG''"
    by (simp add: afterLastDot_def)
  have p: "pathname photo_url = ''/img/photo.JPG''" "host photo_url = ''cdn.example.com''"
    by (simp_all add: photo_url_def)
  note inst = cacheKey_structure [OF lt, of id "Flag False" toy_deps
      "''https://cdn.example.com/img/photo.JPG?v=2''" "fresh Map.empty"]
  have k: "processSource_cacheKey id (Flag False) photo_url = ''/img/photo.JPG.JPG''"
    using inst [THEN conjunct1] by (simp add: p a)
  have t: "trace (processSource_call toy_deps (Flag False)
         (SrcObject (Some ''https://cdn.example.com/img/photo.JPG?v=2'')) (fresh Map.empty))
       = [Stat ''/docs/cdn.example.com//img/photo.JPG.JPG'',
          SetState (constructor_state\<lparr>isRemote := True\<rparr>)]"
    using inst [THEN conjunct2, THEN conjunct2, THEN conjunct1] k
    by (simp add: toy_deps_def fresh_def p)
  from lt k t show ?thesis by blast
qed

subsection \<open>C9: a path that exists\<close>

text \<open>
  C9, as the code has it. When \<^verbatim>\<open>stat\<close> resolves, the resolution is a hit only if the
  path is a regular file: the state becomes cacheable with that path. When the path is a
  directory, nothing follows the \<^verbatim>\<open>stat\<close>: the state and the file system stay as they
  were, the network flag is not consulted, and neither \<^verbatim>\<open>mkdir\<close> nor the transport is
  called.
\<close>

theorem stat_resolved_hit_or_nothing:
  assumes "files s (docDir @ ''/'' @ cachePath @ ''/'' @ cacheKey) = Some k"
  shows "checkImageCache w docDir imageUri cachePath cacheKey s
         = (if k = RegularFile
            then s\<lparr>comp := (comp s)\<lparr>cacheable := True,
                      cachedImagePath := Some (docDir @ ''/'' @ cachePath @ ''/'' @ cacheKey)\<rparr>,
                   trace := trace s @
                     [Stat (docDir @ ''/'' @ cachePath @ ''/'' @ cacheKey),
                      SetState ((comp s)\<lparr>cacheable := True,
                        cachedImagePath := Some (docDir @ ''/'' @ cachePath @ ''/'' @ cacheKey)\<rparr>)]\<rparr>
            else s\<lparr>trace := trace s @ [Stat (docDir @ ''/'' @ cachePath @ ''/'' @ cacheKey)]\<rparr>)"
  using assms
  by (simp add: checkImageCache_def checkImageCache_call_def checkImageCache_settle_def
      stat_then_def setState_def native_def Let_def)

text \<open>A connected component whose derived path is a directory.\<close>

theorem stat_resolved_hit_or_nothing_witness:
  "files (online [''/docs/cdn.example.com/k.JPG'' \<mapsto> Directory])
     (''/docs'' @ ''/'' @ ''cdn.example.com'' @ ''/'' @ ''k.JPG'') = Some Directory
   \<and> checkImageCache good_world ''/docs'' ''https://cdn.example.com/img/photo.JPG''
        ''cdn.example.com'' ''k.JPG'' (online [''/docs/cdn.example.com/k.JPG'' \<mapsto> Directory])
     = (online [''/docs/cdn.example.com/k.JPG'' \<mapsto> Directory])
         \<lparr>trace := trace (online [''/docs/cdn.example.com/k.JPG'' \<mapsto> Directory])
            @ [Stat ''/docs/cdn.example.com/k.JPG'']\<rparr>"
proof -
  have a: "files (online [''/docs/cdn.example.com/k.JPG'' \<mapsto> Directory])
     (''/docs'' @ ''/'' @ ''cdn.example.com'' @ ''/'' @ ''k.JPG'') = Some Directory"
    by (simp add: online_def handleConnectivityChange_def setState_def fresh_def)
  from stat_resolved_hit_or_nothing [OF a, of good_world "''https://cdn.example.com/img/photo.JPG''"]
  show ?thesis using a by simp
qed

text \<open>
  C9 as stated fails in its second half: with the network available and a native side
  on which everything succeeds, an absent path leads to the \<^verbatim>\<open>mkdir\<close> and the transfer,
  and a path that is a directory leads to neither.
\<close>

theorem directory_takes_no_miss_path:
  "files (online [''/docs/cdn.example.com/k.JPG'' \<mapsto> Directory]) ''/docs/cdn.example.com/k.JPG''
     = Some Directory
   \<and> files (online Map.empty) ''/docs/cdn.example.com/k.JPG'' = None
   \<and> filter is_mkdir (trace (checkImageCache good_world ''/docs''
        ''https://cdn.example.com/img/photo.JPG'' ''cdn.example.com'' ''k.JPG'' (online Map.empty)))
     = [Mkdir ''/docs/cdn.example.com'']
   \<and> filter is_download (trace (checkImageCache good_world ''/docs''
        ''https://cdn.example.com/img/photo.JPG'' ''cdn.example.com'' ''k.JPG'' (online Map.empty)))
     = [DownloadFile ''https://cdn.example.com/img/photo.JPG'' ''/docs/cdn.example.com/k.JPG'']
   \<and> filter is_mkdir (trace (checkImageCache good_world ''/docs''
        ''https://cdn.example.com/img/photo.JPG'' ''cdn.example.com'' ''k.JPG''
        (online [''/docs/cdn.example.com/k.JPG'' \<mapsto> Directory])))
     = []
   \<and> filter is_download (trace (checkImageCache good_world ''/docs''
        ''https://cdn.example.com/img/photo.JPG'' ''cdn.example.com'' ''k.JPG''
        (online [''/docs/cdn.example.com/k.JPG'' \<mapsto> Directory])))
     = []"
  by (simp add: handler_defs online_def handleConnectivityChange_def fresh_def
      constructor_state_def good_world_def truthy_path_def js_divide_def Let_def)

subsection \<open>C10: the network flag of a new component\<close>

text \<open>
  C10. The constructor sets the network flag to false. The callback of the initial
  fetch and the connectivity listener set it to the value they are given; the download
  callbacks, the processing of a source with everything that follows from it, and
  unmounting leave it as it is. So when a remote source is mounted, its file is not on
  disk and the \<^verbatim>\<open>stat\<close> settles before the fetch does, the miss is handled with the flag
  still false: the state becomes not cacheable with no path, no \<^verbatim>\<open>mkdir\<close> and no
  transfer is issued, and this holds whatever the fetch then reports, also when the
  device is connected.
\<close>

theorem network_flag_initially_false:
  assumes "remote_uri src = Some uri"
    and "\<not> fetch_first w"
    and "fs (DocumentDirectoryPath d @ ''/'' @ host (parseURL d uri) @ ''/'' @
             processSource_cacheKey (SHA1 d) pol (parseURL d uri)) = None"
  shows "networkAvailable constructor_state = False
    \<and> networkAvailable (comp (netFetch_then b s)) = b
    \<and> networkAvailable (comp (handleConnectivityChange b s)) = b
    \<and> networkAvailable (comp (imageDownloadBegin j s)) = networkAvailable (comp s)
    \<and> networkAvailable (comp (imageDownloadProgress cl bw s)) = networkAvailable (comp s)
    \<and> networkAvailable (comp (processSource w' d' pol' src' s)) = networkAvailable (comp s)
    \<and> networkAvailable (comp (componentWillUnmount s)) = networkAvailable (comp s)
    \<and> componentWillMount w d pol src (fresh fs)
      = \<lparr>comp = \<lparr>isRemote = True, cachedImagePath = None, downloading = False,
                  cacheable = False, jobId = None, networkAvailable = connected w\<rparr>,
         files = fs,
         trace =
           [AddListener, NetFetch,
            Stat (DocumentDirectoryPath d @ ''/'' @ host (parseURL d uri) @ ''/'' @
                  processSource_cacheKey (SHA1 d) pol (parseURL d uri)),
            SetState (constructor_state\<lparr>isRemote := True\<rparr>),
            SetState (constructor_state\<lparr>isRemote := True, cacheable := False,
                        cachedImagePath := None\<rparr>),
            SetState \<lparr>isRemote = True, cachedImagePath = None, downloading = False,
                       cacheable = False, jobId = None, networkAvailable = connected w\<rparr>]\<rparr>"
proof -
  have init: "networkAvailable constructor_state = False"
    by (simp add: constructor_state_def)
  have set1: "networkAvailable (comp (netFetch_then b s)) = b"
    by (simp add: netFetch_then_def setState_def)
  have set2: "networkAvailable (comp (handleConnectivityChange b s)) = b"
    by (simp add: handleConnectivityChange_def setState_def)
  have mount: "componentWillMount w d pol src (fresh fs)
      = \<lparr>comp = \<lparr>isRemote = True, cachedImagePath = None, downloading = False,
                  cacheable = False, jobId = None, networkAvailable = connected w\<rparr>,
         files = fs,
         trace =
           [AddListener, NetFetch,
            Stat (DocumentDirectoryPath d @ ''/'' @ host (parseURL d uri) @ ''/'' @
                  processSource_cacheKey (SHA1 d) pol (parseURL d uri)),
            SetState (constructor_state\<lparr>isRemote := True\<rparr>),
            SetState (constructor_state\<lparr>isRemote := True, cacheable := False,
                        cachedImagePath := None\<rparr>),
            SetState \<lparr>isRemote = True, cachedImagePath = None, downloading = False,
                       cacheable = False, jobId = None, networkAvailable = connected w\<rparr>]\<rparr>"
    using assms
    by (simp add: componentWillMount_def processSource_call_def processSource_settle_def
        checkImageCache_call_def checkImageCache_settle_def stat_catch_def netFetch_then_def
        processSource_cachePath_def setState_def native_def fresh_def constructor_state_def
        Let_def)
  from init set1 set2 begin_network [of j s] progress_network [of cl bw s]
    processSource_network [of w' d' pol' src' s] componentWillUnmount_network [of s] mount
  show ?thesis by blast
qed

text \<open>
  The locator of the scenario mounted on a connected device, over an empty file system,
  with the \<^verbatim>\<open>stat\<close> settling first: the flag ends up true, the entry is not cacheable,
  and no \<^verbatim>\<open>mkdir\<close> and no transfer was issued.
\<close>

theorem network_flag_initially_false_witness:
  "remote_uri (SrcObject (Some ''https://cdn.example.com/img/photo.JPG?v=2''))
     = Some ''https://cdn.example.com/img/photo.JPG?v=2''
   \<and> \<not> fetch_first good_world
   \<and> connected good_world
   \<and> Map.empty (DocumentDirectoryPath toy_deps @ ''/'' @
        host (parseURL toy_deps ''https://cdn.example.com/img/photo.JPG?v=2'') @ ''/'' @
        processSource_cacheKey (SHA1 toy_deps) (Flag False)
          (parseURL toy_deps ''https://cdn.example.com/img/photo.JPG?v=2'')) = (None :: kind option)
   \<and> comp (componentWillMount good_world toy_deps (Flag False)
        (SrcObject (Some ''https://cdn.example.com/img/photo.JPG?v=2'')) (fresh Map.empty))
     = \<lparr>isRemote = True, cachedImagePath = None, downloading = False,
         cacheable = False, jobId = None, networkAvailable = True\<rparr>
   \<and> filter is_mkdir (trace (componentWillMount good_world toy_deps (Flag False)
        (SrcObject (Some ''https://cdn.example.com/img/photo.JPG?v=2'')) (fresh Map.empty))) = []
   \<and> filter is_download (trace (componentWillMount good_world toy_deps (Flag False)
        (SrcObject (Some ''https://cdn.example.com/img/photo.JPG?v=2'')) (fresh Map.empty))) = []"
proof -
  have a: "remote_uri (SrcObject (Some ''https://cdn.example.com/img/photo.JPG?v=2''))
     = Some ''https://cdn.example.com/img/photo.JPG?v=2''" by simp
  have b: "\<not> fetch_first good_world" "connected good_world" by (simp_all add: good_world_def)
  have c: "Map.empty (DocumentDirectoryPath toy_deps @ ''/'' @
        host (parseURL toy_deps ''https://cdn.example.com/img/photo.JPG?v=2'') @ ''/'' @
        processSource_cacheKey (SHA1 toy_deps) (Flag False)
          (parseURL toy_deps ''https://cdn.example.com/img/photo.JPG?v=2'')) = (None :: kind option)"
    by simp
  note inst = network_flag_initially_false [OF a b(1) c, THEN conjunct2, THEN conjunct2,
      THEN conjunct2, THEN conjunct2, THEN conjunct2, THEN conjunct2, THEN conjunct2]
  show ?thesis
    unfolding inst using b by simp
qed

end
